theory Spec2Isabelle
  imports Complex_Main "HOL-Library.AList"
begin

section \<open>Python strings\<close>

text \<open>
  A Python \<open>str\<close> is modelled as a \<open>string\<close> whose characters are read as the code
  points U+0000 to U+00FF (Latin-1), so that \<open>CHR 0xE5\<close> is the letter a with ring
  of the Swedish word for yesterday, and the length of a string counts code points. Every string literal of
  the sources lies in that range. Text with code points from U+0100 on is outside the
  model. The character classes below are the ones of CPython for this range.
\<close>

definition upper_letters :: string where
  "upper_letters = ''ABCDEFGHIJKLMNOPQRSTUVWXYZ'' @
     [CHR 0xC0, CHR 0xC1, CHR 0xC2, CHR 0xC3, CHR 0xC4, CHR 0xC5, CHR 0xC6, CHR 0xC7,
      CHR 0xC8, CHR 0xC9, CHR 0xCA, CHR 0xCB, CHR 0xCC, CHR 0xCD, CHR 0xCE, CHR 0xCF,
      CHR 0xD0, CHR 0xD1, CHR 0xD2, CHR 0xD3, CHR 0xD4, CHR 0xD5, CHR 0xD6,
      CHR 0xD8, CHR 0xD9, CHR 0xDA, CHR 0xDB, CHR 0xDC, CHR 0xDD, CHR 0xDE]"

definition lower_letters :: string where
  "lower_letters = ''abcdefghijklmnopqrstuvwxyz'' @
     [CHR 0xE0, CHR 0xE1, CHR 0xE2, CHR 0xE3, CHR 0xE4, CHR 0xE5, CHR 0xE6, CHR 0xE7,
      CHR 0xE8, CHR 0xE9, CHR 0xEA, CHR 0xEB, CHR 0xEC, CHR 0xED, CHR 0xEE, CHR 0xEF,
      CHR 0xF0, CHR 0xF1, CHR 0xF2, CHR 0xF3, CHR 0xF4, CHR 0xF5, CHR 0xF6,
      CHR 0xF8, CHR 0xF9, CHR 0xFA, CHR 0xFB, CHR 0xFC, CHR 0xFD, CHR 0xFE]"

text \<open>\<open>str.lower()\<close>: the upper-case letters of Latin-1 and their lower-case forms.\<close>

definition lower_char :: "char \<Rightarrow> char" where
  "lower_char c = (case map_of (zip upper_letters lower_letters) c of Some d \<Rightarrow> d | None \<Rightarrow> c)"

definition py_lower :: "string \<Rightarrow> string" where
  "py_lower s = map lower_char s"

text \<open>\<open>str.isspace()\<close> on one character: TAB to CR, FS to US, space, NEL and NBSP.\<close>

definition is_space :: "char \<Rightarrow> bool" where
  "is_space c = (c \<in> set [CHR 0x09, CHR 0x0A, CHR 0x0B, CHR 0x0C, CHR 0x0D,
                            CHR 0x1C, CHR 0x1D, CHR 0x1E, CHR 0x1F, CHR 0x20,
                            CHR 0x85, CHR 0xA0])"

text \<open>\<open>str.strip()\<close> with no argument.\<close>

definition py_strip :: "string \<Rightarrow> string" where
  "py_strip s = rev (dropWhile is_space (rev (dropWhile is_space s)))"

text \<open>The letters of the Swedish words that are not ASCII.\<close>

abbreviation a_ring :: char where "a_ring \<equiv> CHR 0xE5"
abbreviation a_uml :: char where "a_uml \<equiv> CHR 0xE4"
abbreviation o_uml :: char where "o_uml \<equiv> CHR 0xF6"

section \<open>Query expansion (search\_utils.py)\<close>

definition forstarkare :: string where
  "forstarkare = ''f'' @ [o_uml] @ ''rst'' @ [a_uml] @ ''rkare''"

definition SYNONYMS :: "(string \<times> string list) list" where
  "SYNONYMS =
    [(''amp'', [''amplifier'', forstarkare]),
     (''amplifier'', [''amp'', forstarkare]),
     (forstarkare, [''amp'', ''amplifier'']),
     (''turntable'', [''record player'', ''skivspelare'']),
     (''record'', [''record player'', ''vinyl'']),
     (''hifi'', [''audio'', ''audio equipment''])]"

text \<open>\<open>d.get(k, default)\<close> on a dictionary kept as an association list.\<close>

definition dict_get :: "('k \<times> 'v) list \<Rightarrow> 'k \<Rightarrow> 'v \<Rightarrow> 'v" where
  "dict_get d k dflt = (case map_of d k of Some v \<Rightarrow> v | None \<Rightarrow> dflt)"

text \<open>The body of the loop \<open>for syn in synonyms\<close>.\<close>

definition add_variant :: "string list \<Rightarrow> string \<Rightarrow> string list" where
  "add_variant variants syn = (if syn \<in> set variants then variants else variants @ [syn])"

definition expand_search_term :: "string \<Rightarrow> string list" where
  "expand_search_term term =
     (let normalized = py_lower (py_strip term);
          variants = [term]
      in if normalized = [] then variants
         else foldl add_variant variants (dict_get SYNONYMS normalized []))"

section \<open>Listings (base.py)\<close>

text \<open>
  The values found in \<open>raw_data\<close>: \<open>None\<close>, a string, or a number (product ids).
\<close>

datatype raw_value = RawNone | RawStr string | RawNum int

text \<open>
  \<open>ListingResult\<close>. The price is a Python float; its type is left open as \<open>'p\<close>,
  and the text that an f-string gives for it is a parameter where it is needed.
\<close>

record 'p ListingResult =
  title :: string
  description :: "string option"
  price :: "'p option"
  url :: string
  image_url :: "string option"
  posted_date :: "string option"
  location :: "string option"
  raw_data :: "(string \<times> raw_value) list"

section \<open>The orchestrator (AudioSearch in HIFI\_search.py)\<close>

text \<open>
  How a call \<open>scraper.search(query)\<close> ends when nobody stops it: it returns a list, it
  raises an exception that is an \<open>Exception\<close> (with the name of its type and its
  message), or it raises one that is not (\<open>KeyboardInterrupt\<close> and the other
  \<open>BaseException\<close>s).
\<close>

datatype 'l outcome =
    Returns "'l list"
  | Raises string string
  | RaisesBase

text \<open>
  A call ends at some time, counted in seconds from the moment \<open>search_all\<close> creates
  its tasks, or it never ends. All tasks are created together and run side by side;
  a task that is cancelled stops at once.
\<close>

datatype 'l run =
    Ends real "'l outcome"
  | Never

record 'l scraper =
  name :: string
  search :: "string \<Rightarrow> 'l run"

text \<open>The lines written to stderr, by the place that writes them.\<close>

datatype diagnostic =
    EmptyQuery
  | ErrorSearching string string string
  | Timeout string
  | ErrorIn string string string

text \<open>How a task ends.\<close>

datatype 'l finished =
    Result "'l list"
  | Error string string
  | BaseError

text \<open>
  A task: when it ends, how, and what it has written to stderr by then (at the moment it
  ends); or a task that never ends.
\<close>

datatype 'l task =
    Finishes real "'l finished" "diagnostic list"
  | Unfinished

text \<open>
  \<open>_search_scraper\<close> as a task. The query it is given is tested again; an
  \<open>Exception\<close> of the search becomes the empty list and a diagnostic, written inside
  the task when the exception arrives.
\<close>

definition search_scraper :: "'l scraper \<Rightarrow> string \<Rightarrow> 'l task" where
  "search_scraper scraper query =
     (if query = [] \<or> py_strip query = [] then Finishes 0 (Result []) []
      else case search scraper query of
             Never \<Rightarrow> Unfinished
           | Ends d (Returns ls) \<Rightarrow> Finishes d (Result ls) []
           | Ends d (Raises error_type e) \<Rightarrow>
               Finishes d (Result []) [ErrorSearching (name scraper) error_type e]
           | Ends d RaisesBase \<Rightarrow> Finishes d BaseError [])"

text \<open>\<open>timeout=60.0\<close>\<close>

definition timeout :: real where
  "timeout = 60"

text \<open>
  The loop \<open>for name, task in tasks\<close> of \<open>search_all\<close>, on the dictionary
  \<open>results\<close>, the lines written so far, each with the time at which it was written,
  and the time \<open>clock\<close> at which the loop has arrived. Each
  \<open>await asyncio.wait_for(task, timeout=60.0)\<close> starts when the one before it is over
  and then allows 60 seconds from that moment. A task that has ended by then (at the
  latest at that very instant) gives its result, at once if it ended before the wait
  began; otherwise the wait ends after 60 seconds, the task is cancelled and the timeout
  is reported. \<open>results[name] = v\<close> is \<open>AList.update\<close>: a new key goes to the end, an
  old key keeps its place. An exception that is no \<open>Exception\<close> leaves the loop and
  the function.
\<close>

fun await_all ::
  "(string \<times> 'l task) list \<Rightarrow> (string \<times> 'l list) list \<Rightarrow> (real \<times> diagnostic) list \<Rightarrow>
   real \<Rightarrow> unit + ((string \<times> 'l list) list \<times> (real \<times> diagnostic) list)" where
  "await_all [] results out clock = Inr (results, out)"
| "await_all ((nm, Unfinished) # tasks) results out clock =
     await_all tasks (AList.update nm [] results)
       (out @ [(clock + timeout, Timeout nm)]) (clock + timeout)"
| "await_all ((nm, Finishes d e printed) # tasks) results out clock =
     (if d \<le> clock + timeout
      then (case e of
              Result scraper_results \<Rightarrow>
                await_all tasks (AList.update nm scraper_results results)
                  (out @ map (\<lambda>line. (d, line)) printed) (max clock d)
            | Error error_type msg \<Rightarrow>
                await_all tasks (AList.update nm [] results)
                  (out @ map (\<lambda>line. (d, line)) printed @ [(max clock d, ErrorIn nm error_type msg)])
                  (max clock d)
            | BaseError \<Rightarrow> Inl ())
      else await_all tasks (AList.update nm [] results)
             (out @ [(clock + timeout, Timeout nm)]) (clock + timeout))"

text \<open>
  \<open>search_all\<close> of an \<open>AudioSearch\<close> whose enabled scrapers are \<open>scrapers\<close>: the
  mapping and the lines on stderr in the order of their times (lines of the same instant
  in the order of the waits). \<open>Inl ()\<close> is the exception that ends the dispatch.
\<close>

definition search_all ::
  "'l scraper list \<Rightarrow> string \<Rightarrow> unit + ((string \<times> 'l list) list \<times> diagnostic list)" where
  "search_all scrapers query =
     (if query = [] \<or> py_strip query = [] then Inr ([], [EmptyQuery])
      else case await_all
                  (map (\<lambda>scraper. (name scraper, search_scraper scraper (py_strip query))) scrapers)
                  [] [] 0 of
             Inl stop \<Rightarrow> Inl stop
           | Inr (results, out) \<Rightarrow> Inr (results, map snd (sort_key fst out)))"


section \<open>Notions used to state what the orchestrator does\<close>






section \<open>The aggregation loop (main in HIFI\_search.py)\<close>

text \<open>The text an f-string gives for an optional value.\<close>

definition fmt_opt :: "('a \<Rightarrow> string) \<Rightarrow> 'a option \<Rightarrow> string" where
  "fmt_opt f v = (case v of None \<Rightarrow> ''None'' | Some x \<Rightarrow> f x)"

text \<open>
  \<open>listing.url or f"{listing.title}|{listing.price}|{listing.location}"\<close>;
  \<open>str_price\<close> is the text of a float.
\<close>

definition signature :: "('p \<Rightarrow> string) \<Rightarrow> 'p ListingResult \<Rightarrow> string" where
  "signature str_price listing =
     (if url listing \<noteq> [] then url listing
      else title listing @ ''|'' @ fmt_opt str_price (price listing) @ ''|'' @
           fmt_opt (\<lambda>s. s) (location listing))"

text \<open>\<open>d.setdefault(k, v)\<close>, for its effect on the dictionary.\<close>

definition setdefault :: "('k \<times> 'v) list \<Rightarrow> 'k \<Rightarrow> 'v \<Rightarrow> ('k \<times> 'v) list" where
  "setdefault d k v = (if k \<in> fst ` set d then d else d @ [(k, v)])"

text \<open>\<open>bucket.append(x)\<close> where \<open>bucket\<close> is the list stored under \<open>k\<close>.\<close>

definition bucket_append :: "('k \<times> 'v list) list \<Rightarrow> 'k \<Rightarrow> 'v \<Rightarrow> ('k \<times> 'v list) list" where
  "bucket_append d k x = map (\<lambda>(k', xs). if k' = k then (k', xs @ [x]) else (k', xs)) d"

type_synonym 'p agg_state = "(string \<times> 'p ListingResult list) list \<times> string set"

text \<open>The body of \<open>for listing in listings\<close>, on \<open>aggregated_results\<close> and \<open>seen_signatures\<close>.\<close>

definition aggregate_listing ::
  "('p \<Rightarrow> string) \<Rightarrow> string \<Rightarrow> 'p agg_state \<Rightarrow> 'p ListingResult \<Rightarrow> 'p agg_state" where
  "aggregate_listing str_price site st listing =
     (let sig = signature str_price listing
      in if sig \<in> snd st then st
         else (bucket_append (fst st) site listing, insert sig (snd st)))"

text \<open>The body of \<open>for site, listings in results.items()\<close>.\<close>

definition aggregate_site ::
  "('p \<Rightarrow> string) \<Rightarrow> 'p agg_state \<Rightarrow> string \<times> 'p ListingResult list \<Rightarrow> 'p agg_state" where
  "aggregate_site str_price st entry =
     foldl (aggregate_listing str_price (fst entry))
           (setdefault (fst st) (fst entry) [], snd st) (snd entry)"

text \<open>
  The loop \<open>for variant in variants\<close>, given what \<open>search_all\<close> returned for each
  variant in turn.
\<close>

definition aggregate ::
  "('p \<Rightarrow> string) \<Rightarrow> 'p agg_state \<Rightarrow> (string \<times> 'p ListingResult list) list list \<Rightarrow> 'p agg_state" where
  "aggregate str_price st per_variant =
     foldl (\<lambda>st results. foldl (aggregate_site str_price) st results) st per_variant"

text \<open>All listings of an aggregate, bucket after bucket.\<close>

definition all_listings :: "(string \<times> 'a list) list \<Rightarrow> 'a list" where
  "all_listings d = concat (map snd d)"

section \<open>Notions used in the proofs about the aggregation loop\<close>

text \<open>A state absorbs an entry when the site has a bucket and every signature is seen.\<close>

definition absorbs :: "('p \<Rightarrow> string) \<Rightarrow> 'p agg_state \<Rightarrow> string \<times> 'p ListingResult list \<Rightarrow> bool" where
  "absorbs f st entry = (fst entry \<in> fst ` set (fst st) \<and> signature f ` set (snd entry) \<subseteq> snd st)"

text \<open>
  The invariant of the aggregation loop: the sites of the aggregate differ, the
  signatures of its listings differ, and each of them is in the set of seen signatures.
\<close>

definition agg_inv :: "('p \<Rightarrow> string) \<Rightarrow> 'p agg_state \<Rightarrow> bool" where
  "agg_inv f st =
     (distinct (map fst (fst st)) \<and>
      distinct (map (signature f) (all_listings (fst st))) \<and>
      signature f ` set (all_listings (fst st)) \<subseteq> snd st)"

section \<open>Regular expressions (the part of Python's re that the sources use)\<close>

text \<open>
  The patterns of the sources are built from character classes, bounded and unbounded
  greedy repetition of a class, sequence, alternation, optional parts, capture groups,
  \<open>\b\<close>, \<open>^\<close> and \<open>$\<close>. They are matched as \<open>re\<close> does: by backtracking, the
  first alternative and the longest repetition tried first, and \<open>search\<close> trying the
  start positions from left to right.
\<close>

datatype cclass =
    Lit char
  | Digit
  | Space
  | Between char char
  | Either cclass cclass

definition is_digit :: "char \<Rightarrow> bool" where
  "is_digit c = (c \<in> set ''0123456789'')"

text \<open>
  \<open>\w\<close>, which decides \<open>\b\<close>: alphanumeric or underscore. Beyond ASCII these are the
  letters, the ordinal indicators, the micro sign, the superscript digits and the
  fractions of Latin-1.
\<close>

definition is_word :: "char \<Rightarrow> bool" where
  "is_word c = (c \<in> set (''0123456789_'' @ upper_letters @ lower_letters @
      [CHR 0xAA, CHR 0xB2, CHR 0xB3, CHR 0xB5, CHR 0xB9, CHR 0xBA, CHR 0xBC, CHR 0xBD,
       CHR 0xBE, CHR 0xDF, CHR 0xFF]))"

fun class_match :: "cclass \<Rightarrow> char \<Rightarrow> bool" where
  "class_match (Lit a) c = (c = a)"
| "class_match Digit c = is_digit c"
| "class_match Space c = is_space c"
| "class_match (Between a b) c = ((of_char a :: nat) \<le> of_char c \<and> (of_char c :: nat) \<le> of_char b)"
| "class_match (Either x y) c = (class_match x c \<or> class_match y c)"

text \<open>
  With \<open>re.I\<close> a character also matches when its lower-case form does; the patterns
  that carry the flag are written in lower case.
\<close>

definition cmatch :: "bool \<Rightarrow> cclass \<Rightarrow> char \<Rightarrow> bool" where
  "cmatch ic cls c = (class_match cls c \<or> (ic \<and> class_match cls (lower_char c)))"

datatype regex =
    Eps
  | Class cclass
  | Rep cclass nat "nat option"
  | Seq regex regex
  | Alt regex regex
  | Opt regex
  | Group nat regex
  | WordB
  | Bol
  | Eol

text \<open>
  A state of the matcher: the character before the position (\<open>None\<close> at the start of
  the text), the text from the position on, and the groups captured so far, the latest
  first.
\<close>

type_synonym mstate = "char option \<times> string \<times> (nat \<times> string) list"

definition word_before :: "char option \<Rightarrow> bool" where
  "word_before prev = (case prev of None \<Rightarrow> False | Some c \<Rightarrow> is_word c)"

definition word_after :: "string \<Rightarrow> bool" where
  "word_after s = (case s of [] \<Rightarrow> False | c # cs \<Rightarrow> is_word c)"

text \<open>All ways to match at a position, in the order in which backtracking tries them.\<close>

fun rx :: "bool \<Rightarrow> regex \<Rightarrow> mstate \<Rightarrow> mstate list" where
  "rx ic Eps st = [st]"
| "rx ic (Class cls) (prev, s, g) =
     (case s of [] \<Rightarrow> [] | c # cs \<Rightarrow> if cmatch ic cls c then [(Some c, cs, g)] else [])"
| "rx ic (Rep cls lo hi) (prev, s, g) =
     (let n = length (takeWhile (cmatch ic cls) s);
          m = (case hi of None \<Rightarrow> n | Some h \<Rightarrow> min h n)
      in map (\<lambda>k. (if k = 0 then prev else Some (s ! (k - 1)), drop k s, g)) (rev [lo..<Suc m]))"
| "rx ic (Seq r1 r2) st = concat (map (rx ic r2) (rx ic r1 st))"
| "rx ic (Alt r1 r2) st = rx ic r1 st @ rx ic r2 st"
| "rx ic (Opt r) st = rx ic r st @ [st]"
| "rx ic (Group k r) (prev, s, g) =
     map (\<lambda>(prev', s', g'). (prev', s', (k, take (length s - length s') s) # g'))
         (rx ic r (prev, s, g))"
| "rx ic WordB (prev, s, g) = (if word_before prev \<noteq> word_after s then [(prev, s, g)] else [])"
| "rx ic Bol (prev, s, g) = (if prev = None then [(prev, s, g)] else [])"
| "rx ic Eol (prev, s, g) = (if s = [] \<or> s = [CHR 0x0A] then [(prev, s, g)] else [])"

text \<open>The groups of the first match at a position, if there is one.\<close>

definition match_here :: "bool \<Rightarrow> regex \<Rightarrow> char option \<Rightarrow> string \<Rightarrow> (nat \<times> string) list option" where
  "match_here ic r prev s = (case rx ic r (prev, s, []) of [] \<Rightarrow> None | (_, _, g) # _ \<Rightarrow> Some g)"

fun search_from :: "bool \<Rightarrow> regex \<Rightarrow> char option \<Rightarrow> string \<Rightarrow> (nat \<times> string) list option" where
  "search_from ic r prev [] = match_here ic r prev []"
| "search_from ic r prev (c # cs) =
     (case match_here ic r prev (c # cs) of
        Some g \<Rightarrow> Some g
      | None \<Rightarrow> search_from ic r (Some c) cs)"

text \<open>\<open>re.search\<close> and \<open>re.match\<close>; the flag is \<open>re.I\<close>.\<close>

definition re_search :: "bool \<Rightarrow> regex \<Rightarrow> string \<Rightarrow> (nat \<times> string) list option" where
  "re_search ic r s = search_from ic r None s"

definition re_match :: "bool \<Rightarrow> regex \<Rightarrow> string \<Rightarrow> (nat \<times> string) list option" where
  "re_match ic r s = match_here ic r None s"

text \<open>\<open>m.group(k)\<close>: \<open>None\<close> for a group that took no part in the match.\<close>

definition group :: "(nat \<times> string) list \<Rightarrow> nat \<Rightarrow> string option" where
  "group g k = map_of g k"

text \<open>A sequence of parts, and a literal word.\<close>

definition seqs :: "regex list \<Rightarrow> regex" where
  "seqs rs = foldr Seq rs Eps"

definition word :: "string \<Rightarrow> regex" where
  "word s = seqs (map (\<lambda>c. Class (Lit c)) s)"

text \<open>\<open>int(s)\<close> for a text of decimal digits, as the groups \<open>(\d+)\<close> are.\<close>

definition digit_value :: "char \<Rightarrow> int" where
  "digit_value c = (case map_of (zip ''0123456789'' [0, 1, 2, 3, 4, 5, 6, 7, 8, 9]) c of
                      Some v \<Rightarrow> v | None \<Rightarrow> 0)"

definition py_int :: "string \<Rightarrow> int" where
  "py_int s = foldl (\<lambda>a c. 10 * a + digit_value c) 0 s"

text \<open>\<open>int(m.group(k))\<close> for a group that is part of every match.\<close>

definition int_group :: "(nat \<times> string) list \<Rightarrow> nat \<Rightarrow> int" where
  "int_group g k = py_int (dict_get g k [])"

text \<open>\<open>x in s\<close> for strings, and \<open>s.replace(old, new)\<close> for a non-empty \<open>old\<close>.\<close>

fun is_prefix :: "string \<Rightarrow> string \<Rightarrow> bool" where
  "is_prefix [] s = True"
| "is_prefix (a # x) [] = False"
| "is_prefix (a # x) (c # s) = (a = c \<and> is_prefix x s)"

fun contains :: "string \<Rightarrow> string \<Rightarrow> bool" where
  "contains x [] = (x = [])"
| "contains x (c # s) = (is_prefix x (c # s) \<or> contains x s)"

function py_replace :: "string \<Rightarrow> string \<Rightarrow> string \<Rightarrow> string" where
  "py_replace old new s =
     (if old = [] \<or> s = [] then s
      else if is_prefix old s then new @ py_replace old new (drop (length old) s)
      else hd s # py_replace old new (tl s))"
  by pat_completeness auto
termination
  by (relation "measure (\<lambda>(old, new, s). length s)") auto

section \<open>Dates and times (the part of Python's datetime that the sources use)\<close>

text \<open>The exceptions that the date functions let escape.\<close>

datatype py_error = ValueError | OverflowError | OSError | AttributeError

text \<open>A naive \<open>datetime\<close>, by its fields.\<close>

record datetime =
  year :: int
  month :: int
  day :: int
  hour :: int
  minute :: int
  second :: int
  microsecond :: int

definition is_leap :: "int \<Rightarrow> bool" where
  "is_leap y = (y mod 4 = 0 \<and> (y mod 100 \<noteq> 0 \<or> y mod 400 = 0))"

definition days_in_month :: "int \<Rightarrow> int \<Rightarrow> int" where
  "days_in_month y m =
     (if m = 2 then (if is_leap y then 29 else 28)
      else if m = 4 \<or> m = 6 \<or> m = 9 \<or> m = 11 then 30 else 31)"

text \<open>
  \<open>datetime(year, month, day)\<close>: midnight of that day, or \<open>ValueError\<close> when the year is
  not within 1 to 9999, the month not within 1 to 12, or the day not in the month.
\<close>

definition new_datetime :: "int \<Rightarrow> int \<Rightarrow> int \<Rightarrow> py_error + datetime" where
  "new_datetime y m d =
     (if 1 \<le> y \<and> y \<le> 9999 \<and> 1 \<le> m \<and> m \<le> 12 \<and> 1 \<le> d \<and> d \<le> days_in_month y m
      then Inr \<lparr>year = y, month = m, day = d, hour = 0, minute = 0, second = 0, microsecond = 0\<rparr>
      else Inl ValueError)"

text \<open>\<open>dt.replace(hour=0, minute=0, second=0, microsecond=0)\<close>.\<close>

definition midnight :: "datetime \<Rightarrow> datetime" where
  "midnight dt = dt\<lparr>hour := 0, minute := 0, second := 0, microsecond := 0\<rparr>"

text \<open>The comparison of naive datetimes is the comparison of their fields in order.\<close>

definition dt_fields :: "datetime \<Rightarrow> int list" where
  "dt_fields dt = [year dt, month dt, day dt, hour dt, minute dt, second dt, microsecond dt]"

fun lex_less :: "int list \<Rightarrow> int list \<Rightarrow> bool" where
  "lex_less [] [] = False"
| "lex_less [] (b # bs) = True"
| "lex_less (a # as) [] = False"
| "lex_less (a # as) (b # bs) = (a < b \<or> (a = b \<and> lex_less as bs))"

definition dt_less :: "datetime \<Rightarrow> datetime \<Rightarrow> bool" where
  "dt_less a b = lex_less (dt_fields a) (dt_fields b)"

definition dt_le :: "datetime \<Rightarrow> datetime \<Rightarrow> bool" where
  "dt_le a b = (\<not> lex_less (dt_fields b) (dt_fields a))"

text \<open>The proleptic Gregorian ordinal of a day; 1 is the first of January of year 1.\<close>

definition days_before_year :: "int \<Rightarrow> int" where
  "days_before_year y = (y - 1) * 365 + (y - 1) div 4 - (y - 1) div 100 + (y - 1) div 400"

definition days_before_month :: "int \<Rightarrow> int \<Rightarrow> int" where
  "days_before_month y m =
     (case map_of (zip [1, 2, 3, 4, 5, 6, 7, 8, 9, 10, 11, 12]
                       [0, 31, 59, 90, 120, 151, 181, 212, 243, 273, 304, 334]) m of
        Some n \<Rightarrow> n | None \<Rightarrow> 0)
     + (if 2 < m \<and> is_leap y then 1 else 0)"

definition ymd2ord :: "int \<Rightarrow> int \<Rightarrow> int \<Rightarrow> int" where
  "ymd2ord y m d = days_before_year y + days_before_month y m + d"

text \<open>The inverse, as the library computes it from cycles of 400, 100, 4 and 1 years.\<close>

definition ord2ymd :: "int \<Rightarrow> int \<times> int \<times> int" where
  "ord2ymd ordinal =
     (let n = ordinal - 1;
          n400 = n div 146097; n = n mod 146097;
          n100 = n div 36524; n = n mod 36524;
          n4 = n div 1461; n = n mod 1461;
          n1 = n div 365; n = n mod 365;
          y = n400 * 400 + 1 + n100 * 100 + n4 * 4 + n1
      in if n1 = 4 \<or> n100 = 4 then (y - 1, 12, 31)
         else
           let m = (n + 50) div 32;
               preceding = days_before_month y m
           in if n < preceding
              then (y, m - 1, n - (preceding - days_in_month y (m - 1)) + 1)
              else (y, m, n - preceding + 1))"

text \<open>
  \<open>dt - timedelta\<close>, the timedelta given in microseconds. The result is computed from
  the microseconds since the start of day 0; \<open>OverflowError\<close> when its day is not
  within the ordinals 1 to 3652059 (a timedelta too large to be built fails in the same
  way).
\<close>

definition to_micro :: "datetime \<Rightarrow> int" where
  "to_micro dt =
     ((ymd2ord (year dt) (month dt) (day dt) * 86400
       + hour dt * 3600 + minute dt * 60 + second dt) * 1000000) + microsecond dt"

definition from_micro :: "int \<Rightarrow> py_error + datetime" where
  "from_micro t =
     (let days = t div 86400000000;
          secs = (t mod 86400000000) div 1000000;
          us = t mod 1000000
      in if 0 < days \<and> days \<le> 3652059
         then (case ord2ymd days of (y, m, d) \<Rightarrow>
                 Inr \<lparr>year = y, month = m, day = d, hour = secs div 3600,
                      minute = (secs mod 3600) div 60, second = secs mod 60,
                      microsecond = us\<rparr>)
         else Inl OverflowError)"

definition dt_minus :: "datetime \<Rightarrow> int \<Rightarrow> py_error + datetime" where
  "dt_minus dt delta = from_micro (to_micro dt - delta)"

definition td_days :: "int \<Rightarrow> int" where
  "td_days n = n * 86400000000"

definition td_hours :: "int \<Rightarrow> int" where
  "td_hours n = n * 3600000000"

definition td_weeks :: "int \<Rightarrow> int" where
  "td_weeks n = td_days (7 * n)"

text \<open>Decimal text of a number, and \<open>f"{n:0wd}"\<close>.\<close>

fun str_nat :: "nat \<Rightarrow> string" where
  "str_nat n = (if n < 10 then [''0123456789'' ! n]
                else str_nat (n div 10) @ [''0123456789'' ! (n mod 10)])"

definition zero_pad :: "nat \<Rightarrow> string \<Rightarrow> string" where
  "zero_pad w s = replicate (w - length s) CHR ''0'' @ s"

definition fmt_int :: "nat \<Rightarrow> int \<Rightarrow> string" where
  "fmt_int w n = (if n < 0 then ''-'' @ zero_pad (w - 1) (str_nat (nat (- n)))
                  else zero_pad w (str_nat (nat n)))"

text \<open>
  \<open>dt.strftime('%Y-%m-%d')\<close>, with the year in four digits (as the C library writes
  it for the years from 1000 on).
\<close>

definition strftime_ymd :: "datetime \<Rightarrow> string" where
  "strftime_ymd dt = fmt_int 4 (year dt) @ ''-'' @ fmt_int 2 (month dt) @ ''-'' @ fmt_int 2 (day dt)"

section \<open>parse\_date (HIFI\_search.py)\<close>

abbreviation digits :: "nat \<Rightarrow> nat option \<Rightarrow> regex" where
  "digits lo hi \<equiv> Rep Digit lo hi"

abbreviation spaces :: "nat \<Rightarrow> regex" where
  "spaces lo \<equiv> Rep Space lo None"

abbreviation lit :: "char \<Rightarrow> regex" where
  "lit c \<equiv> Class (Lit c)"

text \<open>\<open>(\d+)\s+(day|days?)\s+ago\<close>, and the same for hours and weeks.\<close>

definition ago_pattern :: "string \<Rightarrow> regex" where
  "ago_pattern unit_name =
     seqs [Group 1 (digits 1 None), spaces 1,
           Group 2 (Alt (word unit_name) (Seq (word unit_name) (Opt (lit CHR ''s'')))),
           spaces 1, word ''ago'']"

text \<open>\<open>(\d{4})-(\d{2})-(\d{2})\<close>\<close>

definition iso_pattern :: regex where
  "iso_pattern =
     seqs [Group 1 (digits 4 (Some 4)), lit CHR ''-'', Group 2 (digits 2 (Some 2)),
           lit CHR ''-'', Group 3 (digits 2 (Some 2))]"

text \<open>\<open>([A-Z][a-z]{2})\s+(\d{1,2}),\s+(\d{4})\<close>\<close>

definition month_first_pattern :: regex where
  "month_first_pattern =
     seqs [Group 1 (Seq (Class (Between CHR ''A'' CHR ''Z'')) (Rep (Between CHR ''a'' CHR ''z'') 2 (Some 2))),
           spaces 1, Group 2 (digits 1 (Some 2)), lit CHR '','', spaces 1,
           Group 3 (digits 4 (Some 4))]"

text \<open>\<open>(\d{1,2})\s+([a-z]{3})\.?\s*(?:,?\s*(\d{4}))?\<close>, used with \<open>re.I\<close>\<close>

definition date_pattern :: regex where
  "date_pattern =
     seqs [Group 1 (digits 1 (Some 2)), spaces 1,
           Group 2 (Rep (Between CHR ''a'' CHR ''z'') 3 (Some 3)),
           Rep (Lit CHR ''.'') 0 (Some 1), spaces 0,
           Opt (seqs [Rep (Lit CHR '','') 0 (Some 1), spaces 0, Group 3 (digits 4 (Some 4))])]"

text \<open>\<open>(\d{1,2})[/-](\d{1,2})[/-](\d{2,4})\<close>\<close>

definition slash_pattern :: regex where
  "slash_pattern =
     seqs [Group 1 (digits 1 (Some 2)), Class (Either (Lit CHR ''/'') (Lit CHR ''-'')),
           Group 2 (digits 1 (Some 2)), Class (Either (Lit CHR ''/'') (Lit CHR ''-'')),
           Group 3 (digits 2 (Some 4))]"

definition swedish_months :: "(string \<times> int) list" where
  "swedish_months =
     [(''jan'', 1), (''feb'', 2), (''mar'', 3), (''apr'', 4), (''maj'', 5), (''jun'', 6),
      (''jul'', 7), (''aug'', 8), (''sep'', 9), (''okt'', 10), (''nov'', 11), (''dec'', 12)]"

definition english_months :: "(string \<times> int) list" where
  "english_months =
     [(''jan'', 1), (''feb'', 2), (''mar'', 3), (''apr'', 4), (''may'', 5), (''jun'', 6),
      (''jul'', 7), (''aug'', 8), (''sep'', 9), (''oct'', 10), (''nov'', 11), (''dec'', 12)]"

text \<open>\<open>a.get(k) or b.get(k)\<close>; no month number is 0.\<close>

definition get_or :: "(string \<times> int) list \<Rightarrow> (string \<times> int) list \<Rightarrow> string \<Rightarrow> int option" where
  "get_or a b k = (case map_of a k of Some v \<Rightarrow> Some v | None \<Rightarrow> map_of b k)"

text \<open>\<open>try: return datetime(...) except ValueError: pass\<close>: \<open>None\<close> goes on to the next pattern.\<close>

definition or_pass :: "py_error + datetime \<Rightarrow> datetime option" where
  "or_pass r = (case r of Inr d \<Rightarrow> Some d | Inl e \<Rightarrow> None)"

definition parse_iso :: "string \<Rightarrow> datetime option" where
  "parse_iso date_str =
     (case re_search False iso_pattern date_str of
        None \<Rightarrow> None
      | Some m \<Rightarrow> or_pass (new_datetime (int_group m 1) (int_group m 2) (int_group m 3)))"

definition parse_month_first :: "string \<Rightarrow> datetime option" where
  "parse_month_first date_str =
     (case re_search False month_first_pattern date_str of
        None \<Rightarrow> None
      | Some m \<Rightarrow>
          (let month_str = py_lower (dict_get m 1 []);
               d = int_group m 2;
               y = int_group m 3
           in case get_or english_months swedish_months month_str of
                None \<Rightarrow> None
              | Some mo \<Rightarrow> or_pass (new_datetime y mo d)))"

definition parse_day_first :: "datetime \<Rightarrow> string \<Rightarrow> datetime option" where
  "parse_day_first now date_str =
     (case re_search True date_pattern date_str of
        None \<Rightarrow> None
      | Some m \<Rightarrow>
          (let d = int_group m 1;
               month_str = take 3 (py_lower (dict_get m 2 []));
               year_str = group m 3;
               no_year = (case year_str of None \<Rightarrow> True | Some ys \<Rightarrow> ys = [])
           in case get_or swedish_months english_months month_str of
                None \<Rightarrow> None
              | Some mo \<Rightarrow>
                  (let y = (if no_year then year now else py_int (the year_str))
                   in if no_year
                      then (case new_datetime y mo d of
                              Inl e \<Rightarrow> None
                            | Inr dt \<Rightarrow>
                                if dt_less now dt then or_pass (new_datetime (year now - 1) mo d)
                                else or_pass (new_datetime y mo d))
                      else or_pass (new_datetime y mo d))))"

definition parse_slash :: "string \<Rightarrow> datetime option" where
  "parse_slash date_str =
     (case re_search False slash_pattern date_str of
        None \<Rightarrow> None
      | Some m \<Rightarrow>
          (let d = int_group m 1;
               mo = int_group m 2;
               y = int_group m 3;
               y = (if y < 100 then y + 2000 else y)
           in or_pass (new_datetime y mo d)))"

text \<open>The absolute formats, tried in the order of the source.\<close>

definition parse_absolute :: "datetime \<Rightarrow> string \<Rightarrow> datetime option" where
  "parse_absolute now date_str =
     (case parse_iso date_str of Some dt \<Rightarrow> Some dt | None \<Rightarrow>
      case parse_month_first date_str of Some dt \<Rightarrow> Some dt | None \<Rightarrow>
      case parse_day_first now date_str of Some dt \<Rightarrow> Some dt | None \<Rightarrow>
      parse_slash date_str)"

definition igar :: string where
  "igar = ''ig'' @ [a_ring] @ ''r''"

text \<open>
  \<open>parse_date\<close>, with the reading of the clock as the parameter \<open>now\<close>. \<open>Inl\<close> is an
  exception that the function does not catch.
\<close>

definition parse_date :: "datetime \<Rightarrow> string option \<Rightarrow> py_error + datetime option" where
  "parse_date now date_str_opt =
     (case date_str_opt of
        None \<Rightarrow> Inr None
      | Some raw \<Rightarrow>
          if raw = [] then Inr None
          else
            let date_str = py_strip raw;
                low = py_lower date_str
            in if contains ''just now'' low \<or> contains ''nu'' low then Inr (Some now)
               else if contains ''idag'' low \<or> contains ''today'' low
                 then Inr (Some (midnight now))
               else if contains igar low \<or> contains ''yesterday'' low
                 then map_sum id (\<lambda>dt. Some (midnight dt)) (dt_minus now (td_days 1))
               else case re_search True (ago_pattern ''day'') date_str of
                 Some m \<Rightarrow>
                   map_sum id (\<lambda>dt. Some (midnight dt)) (dt_minus now (td_days (int_group m 1)))
               | None \<Rightarrow>
               case re_search True (ago_pattern ''hour'') date_str of
                 Some m \<Rightarrow> map_sum id Some (dt_minus now (td_hours (int_group m 1)))
               | None \<Rightarrow>
               case re_search True (ago_pattern ''week'') date_str of
                 Some m \<Rightarrow>
                   map_sum id (\<lambda>dt. Some (midnight dt)) (dt_minus now (td_weeks (int_group m 1)))
               | None \<Rightarrow> Inr (parse_absolute now date_str))"

section \<open>normalize\_date (utils.py)\<close>

definition RELATIVE_KEYWORDS :: "(string \<times> string) list" where
  "RELATIVE_KEYWORDS =
     [(''idag'', ''today''), (igar, ''yesterday''), (''just nu'', ''just now''),
      (''justnow'', ''just now'')]"

definition SWEDISH_MONTHS :: "(string \<times> int) list" where
  "SWEDISH_MONTHS =
     [(''jan'', 1), (''januari'', 1), (''feb'', 2), (''februari'', 2), (''mar'', 3), (''mars'', 3),
      (''apr'', 4), (''april'', 4), (''maj'', 5), (''jun'', 6), (''juni'', 6),
      (''jul'', 7), (''juli'', 7), (''aug'', 8), (''augusti'', 8),
      (''sep'', 9), (''sept'', 9), (''september'', 9), (''okt'', 10), (''oktober'', 10),
      (''nov'', 11), (''november'', 11), (''dec'', 12), (''december'', 12)]"

definition ENGLISH_MONTHS :: "(string \<times> int) list" where
  "ENGLISH_MONTHS =
     [(''jan'', 1), (''january'', 1), (''feb'', 2), (''february'', 2), (''mar'', 3), (''march'', 3),
      (''apr'', 4), (''april'', 4), (''may'', 5), (''jun'', 6), (''june'', 6),
      (''jul'', 7), (''july'', 7), (''aug'', 8), (''august'', 8),
      (''sep'', 9), (''sept'', 9), (''september'', 9), (''oct'', 10), (''october'', 10),
      (''nov'', 11), (''november'', 11), (''dec'', 12), (''december'', 12)]"

text \<open>\<open>{**SWEDISH_MONTHS, **ENGLISH_MONTHS}\<close>: the English entry wins where both have one.\<close>

definition MONTH_MAP :: "(string \<times> int) list" where
  "MONTH_MAP = ENGLISH_MONTHS @ SWEDISH_MONTHS"

text \<open>\<open>(\d+)\s+(day|days)\s+ago\<close>, and the same for hours and weeks.\<close>

definition ago_pattern_lower :: "string \<Rightarrow> regex" where
  "ago_pattern_lower unit_name =
     seqs [Group 1 (digits 1 None), spaces 1,
           Group 2 (Alt (word unit_name) (word (unit_name @ ''s''))),
           spaces 1, word ''ago'']"

text \<open>\<open>^\d{1,2}:\d{2}$\<close>\<close>

definition time_pattern :: regex where
  "time_pattern = seqs [Bol, digits 1 (Some 2), lit CHR '':'', digits 2 (Some 2), Eol]"

text \<open>\<open>\b(\d{4})-(\d{2})-(\d{2})\b\<close>\<close>

definition ISO_PATTERN :: regex where
  "ISO_PATTERN =
     seqs [WordB, Group 1 (digits 4 (Some 4)), lit CHR ''-'', Group 2 (digits 2 (Some 2)),
           lit CHR ''-'', Group 3 (digits 2 (Some 2)), WordB]"

text \<open>\<open>\b(\d{1,2})[/-](\d{1,2})[/-](\d{2,4})\b\<close>\<close>

definition SLASH_PATTERN :: regex where
  "SLASH_PATTERN =
     seqs [WordB, Group 1 (digits 1 (Some 2)), Class (Either (Lit CHR ''/'') (Lit CHR ''-'')),
           Group 2 (digits 1 (Some 2)), Class (Either (Lit CHR ''/'') (Lit CHR ''-'')),
           Group 3 (digits 2 (Some 4)), WordB]"

abbreviation letters :: cclass where
  "letters \<equiv> Either (Between CHR ''A'' CHR ''Z'') (Between CHR ''a'' CHR ''z'')"

text \<open>\<open>\b([A-Za-z]{3,9})\s+(\d{1,2}),?\s*(\d{2,4})?\b\<close>\<close>

definition MONTH_FIRST_PATTERN :: regex where
  "MONTH_FIRST_PATTERN =
     seqs [WordB, Group 1 (Rep letters 3 (Some 9)), spaces 1, Group 2 (digits 1 (Some 2)),
           Rep (Lit CHR '','') 0 (Some 1), spaces 0, Opt (Group 3 (digits 2 (Some 4))), WordB]"

text \<open>\<open>\b(\d{1,2})\s+([A-Za-z]{3,9})\s*(\d{2,4})?\b\<close>\<close>

definition DAY_FIRST_PATTERN :: regex where
  "DAY_FIRST_PATTERN =
     seqs [WordB, Group 1 (digits 1 (Some 2)), spaces 1, Group 2 (Rep letters 3 (Some 9)),
           spaces 0, Opt (Group 3 (digits 2 (Some 4))), WordB]"

text \<open>
  The tail shared by the month-first and the day-first branch: the year of the match or
  the current year, one less when the date without a year would lie after \<open>now\<close>. The
  \<open>ValueError\<close> of \<open>datetime(...)\<close> is not caught here.
\<close>

definition format_ymd :: "int \<Rightarrow> int \<Rightarrow> int \<Rightarrow> string" where
  "format_ymd y m d = fmt_int 4 y @ ''-'' @ fmt_int 2 m @ ''-'' @ fmt_int 2 d"

definition with_year :: "datetime \<Rightarrow> string option \<Rightarrow> int \<Rightarrow> int \<Rightarrow> py_error + string option" where
  "with_year now year_str mo d =
     (let no_year = (case year_str of None \<Rightarrow> True | Some ys \<Rightarrow> ys = []);
          year_val = (if no_year then year now else py_int (the year_str))
      in if no_year
         then (case new_datetime year_val mo d of
                 Inl e \<Rightarrow> Inl e
               | Inr dt \<Rightarrow>
                   if dt_less now dt then Inr (Some (format_ymd (year_val - 1) mo d))
                   else Inr (Some (format_ymd year_val mo d)))
         else Inr (Some (format_ymd year_val mo d)))"

definition normalize_day_first :: "datetime \<Rightarrow> string \<Rightarrow> py_error + string option" where
  "normalize_day_first now text =
     (case re_search False DAY_FIRST_PATTERN text of
        None \<Rightarrow> Inr None
      | Some m \<Rightarrow>
          (let d = int_group m 1;
               month_str = py_lower (dict_get m 2 []);
               year_str = group m 3
           in case map_of MONTH_MAP (take 3 month_str) of
                None \<Rightarrow> Inr None
              | Some mo \<Rightarrow> with_year now year_str mo d))"

definition normalize_month_first :: "datetime \<Rightarrow> string \<Rightarrow> py_error + string option" where
  "normalize_month_first now text =
     (case re_search False MONTH_FIRST_PATTERN text of
        None \<Rightarrow> normalize_day_first now text
      | Some m \<Rightarrow>
          (let month_str = py_lower (dict_get m 1 []);
               d = int_group m 2;
               year_str = group m 3
           in case map_of MONTH_MAP (take 3 month_str) of
                None \<Rightarrow> normalize_day_first now text
              | Some mo \<Rightarrow> with_year now year_str mo d))"

definition normalize_absolute :: "datetime \<Rightarrow> string \<Rightarrow> py_error + string option" where
  "normalize_absolute now text =
     (case re_search False ISO_PATTERN text of
        Some m \<Rightarrow> Inr (Some (dict_get m 1 [] @ ''-'' @ dict_get m 2 [] @ ''-'' @ dict_get m 3 []))
      | None \<Rightarrow>
      case re_search False SLASH_PATTERN text of
        Some m \<Rightarrow>
          (let d = int_group m 1;
               mo = int_group m 2;
               y = int_group m 3;
               y = (if y < 100 then y + 2000 else y)
           in Inr (Some (format_ymd y mo d)))
      | None \<Rightarrow> normalize_month_first now text)"

text \<open>
  \<open>normalize_date\<close>, with the reading of the clock as the parameter \<open>now\<close>. \<open>Inl\<close> is
  an exception that the function does not catch.
\<close>

definition normalize_date :: "datetime \<Rightarrow> string option \<Rightarrow> py_error + string option" where
  "normalize_date now date_str_opt =
     (case date_str_opt of
        None \<Rightarrow> Inr None
      | Some raw \<Rightarrow>
          if raw = [] then Inr None
          else
            let text = py_lower (py_strip raw)
            in if text = [] then Inr None
               else
                 let text = foldl (\<lambda>t (key, replacement). py_replace key replacement t)
                              text RELATIVE_KEYWORDS
                 in if contains ''just now'' text \<or> contains ''just nu'' text
                      then Inr (Some (strftime_ymd now))
                    else if contains ''today'' text then Inr (Some (strftime_ymd now))
                    else if contains ''yesterday'' text
                      then map_sum id (\<lambda>dt. Some (strftime_ymd dt)) (dt_minus now (td_days 1))
                    else case re_search False (ago_pattern_lower ''day'') text of
                      Some m \<Rightarrow>
                        map_sum id (\<lambda>dt. Some (strftime_ymd dt))
                          (dt_minus now (td_days (int_group m 1)))
                    | None \<Rightarrow>
                    case re_search False (ago_pattern_lower ''hour'') text of
                      Some m \<Rightarrow>
                        map_sum id (\<lambda>dt. Some (strftime_ymd dt))
                          (dt_minus now (td_hours (int_group m 1)))
                    | None \<Rightarrow>
                    case re_search False (ago_pattern_lower ''week'') text of
                      Some m \<Rightarrow>
                        map_sum id (\<lambda>dt. Some (strftime_ymd dt))
                          (dt_minus now (td_weeks (int_group m 1)))
                    | None \<Rightarrow>
                    if re_match False time_pattern text \<noteq> None
                      then Inr (Some (strftime_ymd now))
                    else normalize_absolute now text)"

section \<open>filter\_by\_days (HIFI\_search.py)\<close>

text \<open>
  The body of \<open>for listing in listings\<close>: whether the listing is appended. The clock
  is read once for the cutoff and again in each \<open>parse_date\<close>; the model takes all
  readings within one call to be the same instant \<open>now\<close>.
\<close>

definition keep_listing :: "datetime \<Rightarrow> datetime \<Rightarrow> 'p ListingResult \<Rightarrow> py_error + bool" where
  "keep_listing now cutoff_date listing =
     (if posted_date listing = None \<or> posted_date listing = Some [] then Inr True
      else case parse_date now (posted_date listing) of
             Inl e \<Rightarrow> Inl e
           | Inr None \<Rightarrow> Inr True
           | Inr (Some listing_date) \<Rightarrow> Inr (dt_le cutoff_date listing_date))"

fun filter_listings ::
  "datetime \<Rightarrow> datetime \<Rightarrow> 'p ListingResult list \<Rightarrow> py_error + 'p ListingResult list" where
  "filter_listings now cutoff_date [] = Inr []"
| "filter_listings now cutoff_date (listing # listings) =
     (case keep_listing now cutoff_date listing of
        Inl e \<Rightarrow> Inl e
      | Inr keep \<Rightarrow>
          (case filter_listings now cutoff_date listings of
             Inl e \<Rightarrow> Inl e
           | Inr filtered_listings \<Rightarrow>
               Inr (if keep then listing # filtered_listings else filtered_listings)))"

text \<open>The loop \<open>for scraper_name, listings in results.items()\<close> on \<open>filtered_results\<close>.\<close>

fun filter_sites ::
  "datetime \<Rightarrow> datetime \<Rightarrow> (string \<times> 'p ListingResult list) list \<Rightarrow>
   (string \<times> 'p ListingResult list) list \<Rightarrow> py_error + (string \<times> 'p ListingResult list) list" where
  "filter_sites now cutoff_date [] filtered_results = Inr filtered_results"
| "filter_sites now cutoff_date ((scraper_name, listings) # results) filtered_results =
     (case filter_listings now cutoff_date listings of
        Inl e \<Rightarrow> Inl e
      | Inr filtered_listings \<Rightarrow>
          filter_sites now cutoff_date results
            (AList.update scraper_name filtered_listings filtered_results))"

definition filter_by_days ::
  "datetime \<Rightarrow> (string \<times> 'p ListingResult list) list \<Rightarrow> int \<Rightarrow>
   py_error + (string \<times> 'p ListingResult list) list" where
  "filter_by_days now results days_back =
     (if days_back \<le> 0 then Inr results
      else case dt_minus now (td_days days_back) of
             Inl e \<Rightarrow> Inl e
           | Inr cutoff_date \<Rightarrow> filter_sites now cutoff_date results [])"

section \<open>The sort key for dates (get\_sort\_key in format\_results)\<close>







section \<open>Sample inputs\<close>

definition demo_scrapers :: "nat scraper list" where
  "demo_scrapers =
     [\<lparr>name = ''Blocket'', search = (\<lambda>q. Ends 5 (Returns [1, 2]))\<rparr>,
      \<lparr>name = ''Tradera'', search = (\<lambda>q. Never)\<rparr>,
      \<lparr>name = ''HiFiShark'', search = (\<lambda>q. Ends 10 (Raises ''ValueError'' ''bad page''))\<rparr>,
      \<lparr>name = ''HifiTorget'', search = (\<lambda>q. Ends 100 (Returns [3]))\<rparr>]"




definition listing_a :: "nat ListingResult" where
  "listing_a = \<lparr>title = ''Hegel H90'', description = None, price = Some 1000,
     url = ''https://example.org/1'', image_url = None, posted_date = Some ''Idag'',
     location = None, raw_data = []\<rparr>"

definition listing_b :: "nat ListingResult" where
  "listing_b = \<lparr>title = ''Hegel H90 amp'', description = None, price = Some 1000,
     url = ''https://example.org/1'', image_url = None, posted_date = Some (''ig'' @ [a_ring] @ ''r''),
     location = None, raw_data = []\<rparr>"

definition listing_c :: "nat ListingResult" where
  "listing_c = \<lparr>title = ''Yamaha A-S501'', description = None, price = None,
     url = [], image_url = None, posted_date = None,
     location = Some ''Uppsala'', raw_data = []\<rparr>"

definition demo_str_price :: "nat \<Rightarrow> string" where
  "demo_str_price p = ''1000.0''"

definition demo_variant1 :: "(string \<times> nat ListingResult list) list" where
  "demo_variant1 = [(''Blocket'', [listing_a, listing_c]), (''Tradera'', [listing_b])]"

definition demo_variant2 :: "(string \<times> nat ListingResult list) list" where
  "demo_variant2 = [(''Blocket'', [listing_c]), (''Tradera'', [listing_b, listing_a])]"

definition demo_aggregate :: "nat agg_state" where
  "demo_aggregate =
     ([(''Blocket'', [listing_a, listing_c]), (''Tradera'', [])],
      {''Yamaha A-S501|None|Uppsala'', ''https://example.org/1''})"

definition listing_shark :: "nat ListingResult" where
  "listing_shark = \<lparr>title = ''NAD 3020'', description = None, price = Some 900,
     url = ''https://example.org/2'', image_url = None, posted_date = Some ''Oct 26, 2025'',
     location = None, raw_data = [(''source'', RawStr ''hifishark''), (''source_site'', RawStr ''Blocket.se'')]\<rparr>"

definition listing_old :: "nat ListingResult" where
  "listing_old = \<lparr>title = ''Rega Planar'', description = None, price = None,
     url = ''https://example.org/3'', image_url = None, posted_date = Some ''2024-10-15'',
     location = None, raw_data = []\<rparr>"

definition sample_now :: datetime where
  "sample_now = \<lparr>year = 2026, month = 11, day = 4, hour = 13, minute = 45, second = 10,
                  microsecond = 250\<rparr>"

definition sample_results :: "(string \<times> nat ListingResult list) list" where
  "sample_results =
     [(''Blocket'', [listing_a, listing_c]),
      (''Tradera'', [listing_old, listing_b]),
      (''HiFiShark'', [listing_shark])]"

definition sample_cutoff :: datetime where
  "sample_cutoff = \<lparr>year = 2026, month = 10, day = 28, hour = 13, minute = 45, second = 10,
                     microsecond = 250\<rparr>"


definition listing_bad :: "nat ListingResult" where
  "listing_bad = \<lparr>title = ''Marantz 2270'', description = None, price = None,
     url = ''https://example.org/4'', image_url = None, posted_date = Some ''9999999 days ago'',
     location = None, raw_data = []\<rparr>"

section \<open>Query expansion: proofs\<close>

lemma synonyms_checked:
  "list_all (\<lambda>(k, syns). distinct syns \<and> k \<noteq> [] \<and> list_all (\<lambda>s. py_lower (py_strip s) \<noteq> k) syns) SYNONYMS"
  by code_simp

lemma synonyms_entry:
  assumes "map_of SYNONYMS k = Some syns"
  shows "distinct syns \<and> k \<noteq> [] \<and> (\<forall>s\<in>set syns. py_lower (py_strip s) \<noteq> k)"
proof -
  from assms have "(k, syns) \<in> set SYNONYMS" by (rule map_of_SomeD)
  with synonyms_checked show ?thesis
    unfolding list_all_iff by fast
qed

lemma synonym_not_term:
  assumes "map_of SYNONYMS (py_lower (py_strip t)) = Some syns"
  shows "t \<notin> set syns"
  using synonyms_entry [OF assms] by blast

lemma foldl_add_variant:
  "distinct syns \<Longrightarrow> set syns \<inter> set vs = {} \<Longrightarrow> foldl add_variant vs syns = vs @ syns"
proof (induction syns arbitrary: vs)
  case Nil
  show ?case by simp
next
  case (Cons s syns)
  from Cons.prems have new: "s \<notin> set vs" by auto
  from Cons.prems have "distinct syns" and "set syns \<inter> set (vs @ [s]) = {}" by auto
  from Cons.IH [OF this] new show ?case by (simp add: add_variant_def)
qed

lemma expand_search_term_eq:
  "expand_search_term t = t # dict_get SYNONYMS (py_lower (py_strip t)) []"
proof (cases "map_of SYNONYMS (py_lower (py_strip t))")
  case None
  then show ?thesis by (simp add: expand_search_term_def dict_get_def Let_def)
next
  case (Some syns)
  from synonyms_entry [OF Some] have nonempty: "py_lower (py_strip t) \<noteq> []"
    and dist: "distinct syns" by simp_all
  from synonym_not_term [OF Some] have "set syns \<inter> set [t] = {}" by simp
  from foldl_add_variant [OF dist this] Some nonempty
  show ?thesis by (simp add: expand_search_term_def dict_get_def Let_def)
qed

lemma expand_search_term_distinct: "distinct (expand_search_term t)"
proof (cases "map_of SYNONYMS (py_lower (py_strip t))")
  case None
  then show ?thesis by (simp add: expand_search_term_eq dict_get_def)
next
  case (Some syns)
  with synonym_not_term [OF Some] synonyms_entry [OF Some]
  show ?thesis by (simp add: expand_search_term_eq dict_get_def)
qed

lemma expand_amp: "expand_search_term ''amp'' = [''amp'', ''amplifier'', ''f'' @ [o_uml] @ ''rst'' @ [a_uml] @ ''rkare'']"
  by code_simp

text \<open>
  C8. Query expansion is a function of the term alone. For every term the result starts
  with the term as it was given, followed by the synonyms that the table holds for the
  trimmed, lower-cased term, in the order of the table; the result has no duplicates;
  and the expansion of "amp" is "amp", "amplifier", the Swedish word \<open>forstarkare\<close> (spelt with o and a umlaut) in that order.
\<close>

theorem expand_search_term_spec:
  "expand_search_term t = t # dict_get SYNONYMS (py_lower (py_strip t)) [] \<and>
   hd (expand_search_term t) = t \<and>
   distinct (expand_search_term t) \<and>
   expand_search_term ''amp'' = [''amp'', ''amplifier'', ''f'' @ [o_uml] @ ''rst'' @ [a_uml] @ ''rkare'']"
  using expand_search_term_eq [of t] expand_search_term_distinct [of t] expand_amp
  by simp

theorem expand_search_term_spec_witness:
  "expand_search_term '' Amplifier '' = ['' Amplifier '', ''amp'', ''f'' @ [o_uml] @ ''rst'' @ [a_uml] @ ''rkare'']"
proof -
  have "dict_get SYNONYMS (py_lower (py_strip '' Amplifier '')) [] = [''amp'', ''f'' @ [o_uml] @ ''rst'' @ [a_uml] @ ''rkare'']"
    by code_simp
  with expand_search_term_spec [of "'' Amplifier ''"] show ?thesis by simp
qed

section \<open>The orchestrator: proofs\<close>


lemma update_fresh: "k \<notin> fst ` set al \<Longrightarrow> AList.update k v al = al @ [(k, v)]"
  by (induction al) auto
























text \<open>
  C10. For a query that is empty or consists of whitespace only, \<open>search_all\<close> returns
  the empty mapping, with no entry for any provider, and writes the one warning about an
  empty query; no provider is asked.
\<close>

theorem search_all_empty_query:
  assumes "query = [] \<or> py_strip query = []"
  shows "search_all scrapers query = Inr ([], [EmptyQuery])"
  using assms by (simp add: search_all_def)

theorem search_all_empty_query_witness:
  "search_all demo_scrapers ''   '' = Inr ([], [EmptyQuery]) \<and>
   search_all demo_scrapers '''' = Inr ([], [EmptyQuery])"
proof -
  have "py_strip ''   '' = []" by code_simp
  then have "search_all demo_scrapers ''   '' = Inr ([], [EmptyQuery])"
    using search_all_empty_query [of "''   ''" demo_scrapers] by simp
  moreover have "search_all demo_scrapers '''' = Inr ([], [EmptyQuery])"
    using search_all_empty_query [of "''''" demo_scrapers] by simp
  ultimately show ?thesis by simp
qed

section \<open>The aggregation loop: proofs\<close>

lemma keys_bucket_append: "fst ` set (bucket_append d k x) = fst ` set d"
  by (induction d) (auto simp: bucket_append_def)

lemma keys_setdefault: "fst ` set (setdefault d k v) = insert k (fst ` set d)"
  by (auto simp: setdefault_def)

lemma setdefault_present: "k \<in> fst ` set d \<Longrightarrow> setdefault d k v = d"
  by (simp add: setdefault_def)

text \<open>One listing: the keys stay, the seen signatures grow and hold the listing's.\<close>

lemma aggregate_listing_keys:
  "fst ` set (fst (aggregate_listing f site st l)) = fst ` set (fst st)"
  by (simp add: aggregate_listing_def Let_def keys_bucket_append)

lemma aggregate_listing_seen:
  "snd (aggregate_listing f site st l) = insert (signature f l) (snd st)"
  by (auto simp: aggregate_listing_def Let_def)

lemma aggregate_listing_discards:
  "signature f l \<in> snd st \<Longrightarrow> aggregate_listing f site st l = st"
  by (simp add: aggregate_listing_def)

lemma foldl_listing_keys:
  "fst ` set (fst (foldl (aggregate_listing f site) st ls)) = fst ` set (fst st)"
  by (induction ls arbitrary: st) (simp_all add: aggregate_listing_keys)

lemma foldl_listing_seen:
  "snd (foldl (aggregate_listing f site) st ls) = snd st \<union> signature f ` set ls"
  by (induction ls arbitrary: st) (simp_all add: aggregate_listing_seen)

lemma foldl_listing_discards:
  "signature f ` set ls \<subseteq> snd st \<Longrightarrow> foldl (aggregate_listing f site) st ls = st"
  by (induction ls arbitrary: st) (simp_all add: aggregate_listing_discards)

lemma aggregate_site_keys:
  "fst ` set (fst (aggregate_site f st e)) = insert (fst e) (fst ` set (fst st))"
  by (simp add: aggregate_site_def foldl_listing_keys keys_setdefault)

lemma aggregate_site_seen:
  "snd (aggregate_site f st e) = snd st \<union> signature f ` set (snd e)"
  by (simp add: aggregate_site_def foldl_listing_seen)

lemma aggregate_site_absorbs_self: "absorbs f (aggregate_site f st e) e"
  by (simp add: absorbs_def aggregate_site_keys aggregate_site_seen)

lemma aggregate_site_absorbs_mono: "absorbs f st e' \<Longrightarrow> absorbs f (aggregate_site f st e) e'"
  by (auto simp: absorbs_def aggregate_site_keys aggregate_site_seen)

lemma aggregate_site_noop: "absorbs f st e \<Longrightarrow> aggregate_site f st e = st"
  by (simp add: absorbs_def aggregate_site_def setdefault_present foldl_listing_discards)

lemma foldl_site_absorbs_mono:
  "absorbs f st e' \<Longrightarrow> absorbs f (foldl (aggregate_site f) st es) e'"
  by (induction es arbitrary: st) (simp_all add: aggregate_site_absorbs_mono)

lemma foldl_site_absorbs_all:
  "e \<in> set es \<Longrightarrow> absorbs f (foldl (aggregate_site f) st es) e"
proof (induction es arbitrary: st)
  case Nil
  then show ?case by simp
next
  case (Cons a es)
  show ?case
  proof (cases "e = a")
    case True
    then show ?thesis
      by (simp add: foldl_site_absorbs_mono aggregate_site_absorbs_self)
  next
    case False
    with Cons show ?thesis by simp
  qed
qed

lemma foldl_site_noop:
  "\<forall>e\<in>set es. absorbs f st e \<Longrightarrow> foldl (aggregate_site f) st es = st"
  by (induction es) (simp_all add: aggregate_site_noop)

lemma aggregate_concat: "aggregate f st pv = foldl (aggregate_site f) st (concat pv)"
  by (induction pv arbitrary: st) (simp_all add: aggregate_def)

lemma aggregate_idem: "aggregate f (aggregate f st pv) pv = aggregate f st pv"
  by (simp add: aggregate_concat foldl_site_noop foldl_site_absorbs_all)

text \<open>
  C6. Deduplication by signature is idempotent. For any results of two variants,
  running the aggregation loop over them a second time in the same session (with the
  aggregate and the seen signatures of the first run) changes nothing: the aggregate has
  the same listings, hence as many, as after one run. The same holds for any number of
  variants and any state the session starts from. A listing whose signature has been
  seen is discarded: the state stays as it was.
\<close>

theorem aggregate_twice_same:
  "aggregate f (aggregate f ([], {}) [r1, r2]) [r1, r2] = aggregate f ([], {}) [r1, r2] \<and>
   aggregate f ([], {}) [r1, r2, r1, r2] = aggregate f ([], {}) [r1, r2] \<and>
   length (all_listings (fst (aggregate f ([], {}) [r1, r2, r1, r2]))) =
     length (all_listings (fst (aggregate f ([], {}) [r1, r2]))) \<and>
   aggregate f (aggregate f st pv) pv = aggregate f st pv \<and>
   (signature f l \<in> snd st \<longrightarrow> aggregate_listing f site st l = st)"
proof -
  have twice: "aggregate f ([], {}) [r1, r2, r1, r2] = aggregate f (aggregate f ([], {}) [r1, r2]) [r1, r2]"
    by (simp add: aggregate_def)
  with aggregate_idem [of f "([], {})" "[r1, r2]"] aggregate_idem [of f st pv]
       aggregate_listing_discards [of f l st site]
  show ?thesis by simp
qed


lemma map_fst_bucket_append: "map fst (bucket_append d k x) = map fst d"
  by (induction d) (auto simp: bucket_append_def)

lemma bucket_append_absent: "k \<notin> fst ` set d \<Longrightarrow> bucket_append d k x = d"
  by (induction d) (auto simp: bucket_append_def)

lemma bucket_append_listings:
  assumes "distinct (map fst d)" and "k \<in> fst ` set d"
  shows "\<exists>A B. all_listings d = A @ B \<and> all_listings (bucket_append d k x) = A @ [x] @ B"
  using assms
proof (induction d)
  case Nil
  then show ?case by simp
next
  case (Cons e d)
  obtain k' xs where e: "e = (k', xs)" by (cases e)
  show ?case
  proof (cases "k' = k")
    case True
    with Cons.prems e have "k \<notin> fst ` set d" by auto
    then have "bucket_append d k x = d" by (rule bucket_append_absent)
    then have tl: "map (\<lambda>(k', xs). if k' = k then (k', xs @ [x]) else (k', xs)) d = d"
      by (simp add: bucket_append_def)
    have "all_listings (e # d) = xs @ all_listings d"
      by (simp add: all_listings_def e)
    moreover have "all_listings (bucket_append (e # d) k x) = xs @ [x] @ all_listings d"
      using True tl by (simp add: all_listings_def e bucket_append_def)
    ultimately show ?thesis by blast
  next
    case False
    with Cons.prems e have "distinct (map fst d)" and "k \<in> fst ` set d" by auto
    from Cons.IH [OF this] obtain A B where
      ab: "all_listings d = A @ B" "all_listings (bucket_append d k x) = A @ [x] @ B" by blast
    have "all_listings (e # d) = (xs @ A) @ B"
      using ab(1) by (simp add: all_listings_def e)
    moreover have "all_listings (bucket_append (e # d) k x) = (xs @ A) @ [x] @ B"
      using False ab(2) by (simp add: all_listings_def e bucket_append_def)
    ultimately show ?thesis by blast
  qed
qed

lemma agg_inv_setdefault:
  "agg_inv f (d, seen) \<Longrightarrow> agg_inv f (setdefault d k [], seen)"
  by (auto simp: agg_inv_def setdefault_def all_listings_def)

lemma agg_inv_listing:
  assumes "agg_inv f st" and "site \<in> fst ` set (fst st)"
  shows "agg_inv f (aggregate_listing f site st l)"
proof (cases "signature f l \<in> snd st")
  case True
  with assms(1) show ?thesis by (simp add: aggregate_listing_discards)
next
  case False
  from assms(1) have dk: "distinct (map fst (fst st))"
    and dl: "distinct (map (signature f) (all_listings (fst st)))"
    and sub: "signature f ` set (all_listings (fst st)) \<subseteq> snd st"
    by (simp_all add: agg_inv_def)
  from bucket_append_listings [OF dk assms(2), of l] obtain A B where
    ab: "all_listings (fst st) = A @ B"
        "all_listings (bucket_append (fst st) site l) = A @ [l] @ B" by blast
  from False sub ab(1) have new: "signature f l \<notin> signature f ` set (A @ B)" by auto
  from dl ab(1) new have "distinct (map (signature f) (A @ [l] @ B))" by auto
  moreover from sub ab(1) have "signature f ` set (A @ [l] @ B) \<subseteq> insert (signature f l) (snd st)"
    by auto
  ultimately show ?thesis
    using False dk ab(2) by (simp add: agg_inv_def aggregate_listing_def Let_def map_fst_bucket_append)
qed

lemma agg_inv_listings:
  "agg_inv f st \<Longrightarrow> site \<in> fst ` set (fst st) \<Longrightarrow> agg_inv f (foldl (aggregate_listing f site) st ls)"
  by (induction ls arbitrary: st) (simp_all add: agg_inv_listing aggregate_listing_keys)

lemma agg_inv_site: "agg_inv f st \<Longrightarrow> agg_inv f (aggregate_site f st e)"
proof -
  assume "agg_inv f st"
  then have "agg_inv f (fst st, snd st)" by simp
  then have "agg_inv f (setdefault (fst st) (fst e) [], snd st)" by (rule agg_inv_setdefault)
  then show ?thesis
    unfolding aggregate_site_def by (rule agg_inv_listings) (simp add: keys_setdefault)
qed

lemma agg_inv_sites: "agg_inv f st \<Longrightarrow> agg_inv f (foldl (aggregate_site f) st es)"
  by (induction es arbitrary: st) (simp_all add: agg_inv_site)

lemma agg_inv_aggregate: "agg_inv f ([], {}) \<and> (agg_inv f st \<longrightarrow> agg_inv f (aggregate f st pv))"
  by (simp add: aggregate_concat agg_inv_sites) (simp add: agg_inv_def all_listings_def)

text \<open>
  C9. Deduplication is global. In the aggregate built from empty, by any number of
  variants and providers, the signatures of all retained listings, over all provider
  buckets together, are pairwise different. A listing retained under one provider makes
  the loop discard any later listing of the same signature, under any provider.
\<close>

theorem aggregate_signatures_distinct:
  "distinct (map (signature f) (all_listings (fst (aggregate f ([], {}) pv)))) \<and>
   (signature f l' = signature f l \<longrightarrow>
      aggregate_listing f site2 (aggregate_listing f site1 st l) l' = aggregate_listing f site1 st l)"
proof -
  from agg_inv_aggregate [of f "([], {})" pv] have "agg_inv f (aggregate f ([], {}) pv)" by simp
  then have "distinct (map (signature f) (all_listings (fst (aggregate f ([], {}) pv))))"
    by (simp add: agg_inv_def)
  moreover have "aggregate_listing f site2 (aggregate_listing f site1 st l) l' = aggregate_listing f site1 st l"
    if "signature f l' = signature f l"
    using that by (simp add: aggregate_listing_discards aggregate_listing_seen)
  ultimately show ?thesis by simp
qed

lemma demo_aggregate_run:
  "aggregate demo_str_price ([], {}) [demo_variant1, demo_variant2] = demo_aggregate"
  by code_simp

theorem aggregate_signatures_distinct_witness:
  "distinct (map (signature demo_str_price)
     (all_listings (fst (aggregate demo_str_price ([], {}) [demo_variant1, demo_variant2])))) \<and>
   signature demo_str_price listing_b = signature demo_str_price listing_a \<and>
   aggregate_listing demo_str_price ''Tradera''
     (aggregate_listing demo_str_price ''Blocket'' ([(''Blocket'', []), (''Tradera'', [])], {}) listing_a)
     listing_b =
   ([(''Blocket'', [listing_a]), (''Tradera'', [])], {''https://example.org/1''})"
proof -
  have same: "signature demo_str_price listing_b = signature demo_str_price listing_a"
    by (simp add: signature_def listing_a_def listing_b_def)
  have first: "aggregate_listing demo_str_price ''Blocket'' ([(''Blocket'', []), (''Tradera'', [])], {}) listing_a =
     ([(''Blocket'', [listing_a]), (''Tradera'', [])], {''https://example.org/1''})"
    by (simp add: aggregate_listing_def bucket_append_def signature_def listing_a_def)
  from aggregate_signatures_distinct [of demo_str_price "[demo_variant1, demo_variant2]"
         listing_b listing_a "''Tradera''" "''Blocket''" "([(''Blocket'', []), (''Tradera'', [])], {})"]
       same first
  show ?thesis by simp
qed


theorem aggregate_twice_same_witness:
  "aggregate demo_str_price ([], {}) [demo_variant1, demo_variant2, demo_variant1, demo_variant2] =
     demo_aggregate \<and>
   signature demo_str_price listing_b \<in> snd demo_aggregate \<and>
   aggregate_listing demo_str_price ''Tradera'' demo_aggregate listing_b = demo_aggregate"
proof -
  have seen: "signature demo_str_price listing_b \<in> snd demo_aggregate"
    by (simp add: signature_def listing_b_def demo_aggregate_def)
  from aggregate_twice_same [of demo_str_price demo_variant1 demo_variant2
         demo_aggregate "[]" listing_b "''Tradera''"] seen demo_aggregate_run
  show ?thesis by simp
qed

section \<open>The date functions on the inputs of the specification\<close>













lemma parse_feb_30:
  "parse_date now (Some ''2024-02-30'') =
     Inr (Some \<lparr>year = 2030, month = 2, day = 24, hour = 0, minute = 0, second = 0,
               microsecond = 0\<rparr>)"
  by code_simp

lemma parse_month_13: "parse_date now (Some ''2024-13-45'') = Inr None"
  by code_simp

lemma normalize_month_13: "normalize_date now (Some ''2024-13-45'') = Inr (Some ''2024-13-45'')"
  by code_simp

lemma normalize_slash_month_13:
  "normalize_date now (Some ''45/13/2025'') = Inr (Some ''2025-13-45'')"
  by code_simp

text \<open>
  C4. What the code does with malformed numeric dates. \<open>parse_date\<close> rejects the
  ISO-shaped text with month 13, but for "2024-02-30", where the day is impossible, it
  goes on to the pattern for dates with slashes or dashes, which reads the tail
  "24-02-30" as day 24, month 2, year 30, and returns 24 February 2030.
  \<open>normalize_date\<close> does not check the numbers at all: "2024-13-45" comes back as it
  is, and "45/13/2025" as "2025-13-45".
\<close>

theorem malformed_numeric_dates:
  "parse_date now (Some ''2024-13-45'') = Inr None \<and>
   parse_date now (Some ''2024-02-30'') =
     Inr (Some \<lparr>year = 2030, month = 2, day = 24, hour = 0, minute = 0, second = 0,
               microsecond = 0\<rparr>) \<and>
   normalize_date now (Some ''2024-13-45'') = Inr (Some ''2024-13-45'') \<and>
   normalize_date now (Some ''45/13/2025'') = Inr (Some ''2025-13-45'')"
  by (intro conjI parse_month_13 parse_feb_30 normalize_month_13 normalize_slash_month_13)

lemma normalize_26_okt_2025:
  "normalize_date now (Some ''26 okt 2025'') = Inr (Some ''0025-10-20'')"
  by code_simp

lemma parse_26_okt_2025:
  "parse_date now (Some ''26 okt 2025'') =
     Inr (Some \<lparr>year = 2025, month = 10, day = 26, hour = 0, minute = 0, second = 0,
               microsecond = 0\<rparr>)"
  by code_simp

lemma normalize_22_sep_2024:
  "normalize_date sample_now (Some ''22 sep. 2024'') = Inr (Some ''2026-09-22'')"
  by code_simp

lemma day_first_no_year:
  "parse_date sample_now (Some ''22 sep.'') =
     Inr (Some \<lparr>year = 2026, month = 9, day = 22, hour = 0, minute = 0, second = 0,
               microsecond = 0\<rparr>)"
  "normalize_date sample_now (Some ''22 sep.'') = Inr (Some ''2026-09-22'')"
  "parse_date sample_now (Some ''22 dec'') =
     Inr (Some \<lparr>year = 2025, month = 12, day = 22, hour = 0, minute = 0, second = 0,
               microsecond = 0\<rparr>)"
  "normalize_date sample_now (Some ''22 dec'') = Inr (Some ''2025-12-22'')"
  by code_simp+

lemma parse_15_januari_2024: "parse_date now (Some ''15 januari 2024'') = Inr (Some now)"
  by code_simp

text \<open>
  C5. What the code does with day-first dates. Without a year both functions take
  the current year, or the year before when the date would lie after now: on
  4 November 2026, "22 sep." is 22 September 2026 and "22 dec" is 22 December 2025. With
  a year, \<open>parse_date\<close> returns the date, but \<open>normalize_date\<close> does not: on
  "26 okt 2025" its month-first pattern matches "okt 20" and takes "25" for the year, which
  gives "0025-10-20"; on "22 sep. 2024" the year after the dot is not read, and the
  current year is taken. \<open>parse_date\<close> itself returns the present instant for
  "15 januari 2024", because the text contains "nu".
\<close>

theorem day_first_dates:
  "parse_date sample_now (Some ''22 sep.'') =
     Inr (Some \<lparr>year = 2026, month = 9, day = 22, hour = 0, minute = 0, second = 0,
               microsecond = 0\<rparr>) \<and>
   normalize_date sample_now (Some ''22 sep.'') = Inr (Some ''2026-09-22'') \<and>
   parse_date sample_now (Some ''22 dec'') =
     Inr (Some \<lparr>year = 2025, month = 12, day = 22, hour = 0, minute = 0, second = 0,
               microsecond = 0\<rparr>) \<and>
   normalize_date sample_now (Some ''22 dec'') = Inr (Some ''2025-12-22'') \<and>
   parse_date now (Some ''26 okt 2025'') =
     Inr (Some \<lparr>year = 2025, month = 10, day = 26, hour = 0, minute = 0, second = 0,
               microsecond = 0\<rparr>) \<and>
   normalize_date now (Some ''26 okt 2025'') = Inr (Some ''0025-10-20'') \<and>
   normalize_date sample_now (Some ''22 sep. 2024'') = Inr (Some ''2026-09-22'') \<and>
   parse_date now (Some ''15 januari 2024'') = Inr (Some now)"
  by (intro conjI day_first_no_year parse_26_okt_2025 normalize_26_okt_2025
        normalize_22_sep_2024 parse_15_januari_2024)

section \<open>The recency filter: proofs\<close>


lemma dt_le_refl: "dt_le d d"
proof -
  have "\<not> lex_less xs xs" for xs by (induction xs) simp_all
  then show ?thesis by (simp add: dt_le_def)
qed

lemma keep_listing_retained:
  assumes "parse_date now (posted_date l) = Inr r"
  shows "keep_listing now cutoff l =
           Inr (posted_date l = None \<or> posted_date l = Some [] \<or>
                parse_date now (posted_date l) = Inr None \<or>
                (\<exists>d. parse_date now (posted_date l) = Inr (Some d) \<and> dt_le cutoff d))"
  using assms by (cases r) (auto simp: keep_listing_def)

lemma filter_listings_retained:
  assumes "\<forall>l\<in>set ls. \<exists>r. parse_date now (posted_date l) = Inr r"
  shows "filter_listings now cutoff ls =
           Inr (filter (\<lambda>l. posted_date l = None \<or> posted_date l = Some [] \<or>
                          parse_date now (posted_date l) = Inr None \<or>
                          (\<exists>d. parse_date now (posted_date l) = Inr (Some d) \<and> dt_le cutoff d)) ls)"
  using assms
proof (induction ls)
  case Nil
  show ?case by simp
next
  case (Cons l ls)
  from Cons.prems obtain r where r: "parse_date now (posted_date l) = Inr r" by auto
  from Cons.prems have "\<forall>l\<in>set ls. \<exists>r. parse_date now (posted_date l) = Inr r" by simp
  from Cons.IH [OF this] keep_listing_retained [OF r, of cutoff]
  show ?case by simp
qed

lemma filter_sites_retained:
  assumes "distinct (map fst results)" and "fst ` set results \<inter> fst ` set acc = {}"
      and "\<forall>(s, ls)\<in>set results. \<forall>l\<in>set ls. \<exists>r. parse_date now (posted_date l) = Inr r"
  shows "filter_sites now cutoff results acc =
           Inr (acc @ map (\<lambda>(s, ls). (s, filter (\<lambda>l. posted_date l = None \<or> posted_date l = Some [] \<or>
                          parse_date now (posted_date l) = Inr None \<or>
                          (\<exists>d. parse_date now (posted_date l) = Inr (Some d) \<and> dt_le cutoff d)) ls)) results)"
  using assms
proof (induction results arbitrary: acc)
  case Nil
  show ?case by simp
next
  case (Cons e results)
  obtain s ls where e: "e = (s, ls)" by (cases e)
  let ?keep = "\<lambda>l. posted_date l = None \<or> posted_date l = Some [] \<or>
                          parse_date now (posted_date l) = Inr None \<or>
                          (\<exists>d. parse_date now (posted_date l) = Inr (Some d) \<and> dt_le cutoff d)"
  from Cons.prems(3) e have "\<forall>l\<in>set ls. \<exists>r. parse_date now (posted_date l) = Inr r" by simp
  then have fl: "filter_listings now cutoff ls = Inr (filter ?keep ls)"
    by (rule filter_listings_retained)
  from Cons.prems(2) e have fresh: "s \<notin> fst ` set acc" by auto
  then have upd: "AList.update s (filter ?keep ls) acc = acc @ [(s, filter ?keep ls)]"
    by (rule update_fresh)
  from Cons.prems e have d: "distinct (map fst results)"
    and disj: "fst ` set results \<inter> fst ` set (acc @ [(s, filter ?keep ls)]) = {}"
    and rest: "\<forall>(s, ls)\<in>set results. \<forall>l\<in>set ls. \<exists>r. parse_date now (posted_date l) = Inr r"
    by auto
  from Cons.IH [OF d disj rest] fl upd e show ?case by simp
qed

text \<open>
  Where nothing raises, the filter does what its docstring says. For \<open>days_back\<close> \<le> 0
  it returns its input. For \<open>days_back\<close> > 0, when now minus that many days is a
  datetime (the cutoff), the keys of the mapping differ and no posted date makes
  \<open>parse_date\<close> raise, the result has the same sites in the same order, and under each
  site exactly the listings, in their order, that have no posted date (\<open>None\<close> or
  empty), or whose posted date does not parse, or whose parsed date is at or after the
  cutoff. The comparison includes the cutoff itself.
\<close>

lemma filter_by_days_in_range:
  "(days_back \<le> 0 \<longrightarrow> filter_by_days now results days_back = Inr results) \<and>
   (0 < days_back \<and> dt_minus now (td_days days_back) = Inr cutoff \<and>
    distinct (map fst results) \<and>
    (\<forall>(s, ls)\<in>set results. \<forall>l\<in>set ls. \<exists>r. parse_date now (posted_date l) = Inr r) \<longrightarrow>
    filter_by_days now results days_back =
      Inr (map (\<lambda>(s, ls).
                 (s, filter (\<lambda>l. posted_date l = None \<or> posted_date l = Some [] \<or>
                                parse_date now (posted_date l) = Inr None \<or>
                                (\<exists>d. parse_date now (posted_date l) = Inr (Some d) \<and>
                                     dt_le cutoff d)) ls)) results)) \<and>
   dt_le cutoff cutoff"
proof (intro conjI impI)
  assume "days_back \<le> 0"
  then show "filter_by_days now results days_back = Inr results"
    by (simp add: filter_by_days_def)
next
  assume a: "0 < days_back \<and> dt_minus now (td_days days_back) = Inr cutoff \<and>
    distinct (map fst results) \<and>
    (\<forall>(s, ls)\<in>set results. \<forall>l\<in>set ls. \<exists>r. parse_date now (posted_date l) = Inr r)"
  then have "filter_sites now cutoff results [] =
      Inr ([] @ map (\<lambda>(s, ls).
                 (s, filter (\<lambda>l. posted_date l = None \<or> posted_date l = Some [] \<or>
                                parse_date now (posted_date l) = Inr None \<or>
                                (\<exists>d. parse_date now (posted_date l) = Inr (Some d) \<and>
                                     dt_le cutoff d)) ls)) results)"
    by (intro filter_sites_retained) simp_all
  with a show "filter_by_days now results days_back =
      Inr (map (\<lambda>(s, ls).
                 (s, filter (\<lambda>l. posted_date l = None \<or> posted_date l = Some [] \<or>
                                parse_date now (posted_date l) = Inr None \<or>
                                (\<exists>d. parse_date now (posted_date l) = Inr (Some d) \<and>
                                     dt_le cutoff d)) ls)) results)"
    by (simp add: filter_by_days_def)
next
  show "dt_le cutoff cutoff" by (rule dt_le_refl)
qed

lemma sample_filter_run:
  "filter_by_days sample_now sample_results 7 =
     Inr [(''Blocket'', [listing_a, listing_c]), (''Tradera'', [listing_b]), (''HiFiShark'', [])]"
  by code_simp

lemma sample_cutoff_eq: "dt_minus sample_now (td_days 7) = Inr sample_cutoff"
  by code_simp

lemma sample_parses:
  "\<forall>(s, ls)\<in>set sample_results. \<forall>l\<in>set ls. \<exists>r. parse_date sample_now (posted_date l) = Inr r"
proof -
  have "parse_date sample_now (posted_date listing_a) \<noteq> Inl e"
       "parse_date sample_now (posted_date listing_b) \<noteq> Inl e"
       "parse_date sample_now (posted_date listing_c) \<noteq> Inl e"
       "parse_date sample_now (posted_date listing_old) \<noteq> Inl e"
       "parse_date sample_now (posted_date listing_shark) \<noteq> Inl e" for e
    by code_simp+
  then have "\<exists>r. parse_date sample_now (posted_date l) = Inr r"
    if "l \<in> {listing_a, listing_b, listing_c, listing_old, listing_shark}" for l
    using that by (metis insertE emptyE sum.exhaust_sel sum.collapse(1))
  then show ?thesis by (simp add: sample_results_def)
qed

lemma filter_by_days_in_range_sample:
  "filter_by_days sample_now sample_results 7 =
     Inr [(''Blocket'', [listing_a, listing_c]), (''Tradera'', [listing_b]), (''HiFiShark'', [])] \<and>
   filter_by_days sample_now sample_results 0 = Inr sample_results \<and>
   dt_minus sample_now (td_days 7) = Inr sample_cutoff"
proof -
  have d: "distinct (map fst sample_results)" by (simp add: sample_results_def)
  from filter_by_days_in_range [of 0 sample_now sample_results sample_cutoff]
  have zero: "filter_by_days sample_now sample_results 0 = Inr sample_results" by simp
  from filter_by_days_in_range [of 7 sample_now sample_results sample_cutoff]
       sample_cutoff_eq d sample_parses
  have "\<exists>kept. filter_by_days sample_now sample_results 7 = Inr kept" by simp
  with sample_filter_run zero sample_cutoff_eq show ?thesis by simp
qed

text \<open>
  C2. What the code does with a window or a date that reaches before year 1. Asked for the last million days on
  4 November 2026, the function raises \<open>OverflowError\<close> when it subtracts the days
  from now, before it looks at any listing: the listing without a date is not kept. And
  with a window of 7 days, one listing dated "9999999 days ago" makes \<open>parse_date\<close>
  raise the same error, and the listing without a date next to it is lost as well.
\<close>

theorem filter_by_days_overflow:
  "posted_date listing_c = None \<and>
   filter_by_days sample_now [(''Blocket'', [listing_c])] 1000000 = Inl OverflowError \<and>
   parse_date sample_now (posted_date listing_bad) = Inl OverflowError \<and>
   filter_by_days sample_now [(''Blocket'', [listing_c, listing_bad])] 7 = Inl OverflowError"
  by code_simp

section \<open>The sort key for dates: proofs\<close>









end
